theory Spec2Isabelle
  imports Main "HOL-Library.Char_ord" "HOL-Library.List_Lexorder" "HOL-Library.AList"
begin

section \<open>Data model\<close>

text \<open>
  Go's \<^verbatim>\<open>interface{}\<close> values that the logging facade stores in its field maps.
  A key handed to a backend is itself such a value (a string).
\<close>

datatype iface = INil | IString string | IInt int | IBool bool

text \<open>
  A Go \<^verbatim>\<open>map[string]interface{}\<close> (\<^verbatim>\<open>Values\<close>, \<^verbatim>\<open>Context\<close>, \<^verbatim>\<open>logrus.Fields\<close>) is an
  association list whose keys are pairwise distinct. The order of the list is the order in
  which a \<^verbatim>\<open>for k, v := range m\<close> loop visits the entries; Go leaves that order unspecified,
  so properties are stated for every order.
\<close>

type_synonym gomap = "(string \<times> iface) list"

definition wf_gomap :: "gomap \<Rightarrow> bool" where
  "wf_gomap m = distinct (map fst m)"

text \<open>\<^verbatim>\<open>m[key]\<close>: the stored value, or the zero value \<^verbatim>\<open>nil\<close> for a missing key.\<close>

definition index :: "gomap \<Rightarrow> string \<Rightarrow> iface" where
  "index m key = (case map_of m key of None \<Rightarrow> INil | Some x \<Rightarrow> x)"

section \<open>v2: Values.toVariadic\<close>

text \<open>
  \<^verbatim>\<open>for key := range v { orderedSlice = append(orderedSlice, key) }\<close>
\<close>

definition range_keys :: "gomap \<Rightarrow> string list" where
  "range_keys v = fold (\<lambda>(key, _) orderedSlice. orderedSlice @ [key]) v []"

text \<open>
  \<^verbatim>\<open>sort.Strings(orderedSlice)\<close> followed by
  \<^verbatim>\<open>for _, key := range orderedSlice { keyAndValues = append(keyAndValues, key, v[key]) }\<close>.
  Go compares strings bytewise, which is the lexicographic order on \<^typ>\<open>char list\<close>.
\<close>

definition toVariadic :: "gomap \<Rightarrow> iface list" where
  "toVariadic v =
     (let orderedSlice = sort (range_keys v)
      in fold (\<lambda>key keyAndValues. keyAndValues @ [IString key, index v key]) orderedSlice [])"

text \<open>
  Reading a flat alternating sequence back, as the specification's round trip does:
  positions 0, 2, 4, ... are the keys and positions 1, 3, 5, ... the values.
\<close>

fun keysOfPairs :: "iface list \<Rightarrow> iface list" where
  "keysOfPairs (k # v # rest) = k # keysOfPairs rest"
| "keysOfPairs _ = []"

fun valuesOfPairs :: "iface list \<Rightarrow> iface list" where
  "valuesOfPairs (k # v # rest) = v # valuesOfPairs rest"
| "valuesOfPairs _ = []"

text \<open>
  Re-serialising pairs into a mapping, left to right, a later pair replacing an earlier
  one with the same key.
\<close>

fun pairsToMap :: "(string \<rightharpoonup> iface) \<Rightarrow> iface list \<Rightarrow> (string \<rightharpoonup> iface)" where
  "pairsToMap m (IString k # v # rest) = pairsToMap (m(k \<mapsto> v)) rest"
| "pairsToMap m _ = m"

section \<open>Strings\<close>

text \<open>
  \<^verbatim>\<open>strings.ToLower\<close> on the ASCII letters; every other byte is kept. The callers only
  compare the result with lower-case ASCII words.
\<close>

definition toLowerChar :: "char \<Rightarrow> char" where
  "toLowerChar c = (if CHR ''A'' \<le> c \<and> c \<le> CHR ''Z'' then char_of (of_char c + (32::nat)) else c)"

definition ToLower :: "string \<Rightarrow> string" where
  "ToLower s = map toLowerChar s"

section \<open>The error-capture sink (sentry.go)\<close>

text \<open>
  The hub of the error-tracking client: the current scope (named context blocks and tags),
  the events handed to the client, each with the scope it was captured under, and the
  flushes requested (timeout in nanoseconds, the unit of \<^verbatim>\<open>time.Duration\<close>).
  An \<^verbatim>\<open>error\<close> value is its message; \<open>None\<close> is the nil error.
\<close>

datatype event_kind = Exception string | Message string

record event =
  ev_kind :: event_kind
  ev_contexts :: "(string \<times> gomap) list"
  ev_tags :: "(string \<times> string) list"

record hub =
  contexts :: "(string \<times> gomap) list"
  tags :: "(string \<times> string) list"
  events :: "event list"
  flushes :: "nat list"

definition Second :: nat where
  "Second = 1000000000"

text \<open>\<^verbatim>\<open>scope.SetContext(key, value)\<close> stores the block under the key, replacing the block
  stored there before; \<^verbatim>\<open>scope.SetTag\<close> does the same for a tag.\<close>

definition SetContext :: "string \<Rightarrow> gomap \<Rightarrow> hub \<Rightarrow> hub" where
  "SetContext key val h = h\<lparr>contexts := AList.update key val (contexts h)\<rparr>"

definition SetTag :: "string \<Rightarrow> string \<Rightarrow> hub \<Rightarrow> hub" where
  "SetTag key val h = h\<lparr>tags := AList.update key val (tags h)\<rparr>"

definition CaptureException :: "string \<Rightarrow> hub \<Rightarrow> hub" where
  "CaptureException err h =
     h\<lparr>events := events h @ [\<lparr>ev_kind = Exception err, ev_contexts = contexts h, ev_tags = tags h\<rparr>]\<rparr>"

definition CaptureMessage :: "string \<Rightarrow> hub \<Rightarrow> hub" where
  "CaptureMessage msg h =
     h\<lparr>events := events h @ [\<lparr>ev_kind = Message msg, ev_contexts = contexts h, ev_tags = tags h\<rparr>]\<rparr>"

definition Flush :: "nat \<Rightarrow> hub \<Rightarrow> hub" where
  "Flush timeout h = h\<lparr>flushes := flushes h @ [timeout]\<rparr>"

text \<open>
  \<^verbatim>\<open>CaptureError\<close>: the scope is configured (one \<^verbatim>\<open>SetContext("log", {k: v})\<close> per field,
  then the two tags), the exception is captured when there is an error, the message is
  captured, and the deferred flush runs last.
\<close>

definition CaptureError :: "string \<Rightarrow> gomap \<Rightarrow> string \<Rightarrow> string \<Rightarrow> string option \<Rightarrow> hub \<Rightarrow> hub" where
  "CaptureError serviceName flds caller entry err h =
     (let h1 = fold (\<lambda>(k, v). SetContext ''log'' [(k, v)]) flds h;
          h2 = SetTag ''method'' caller h1;
          h3 = SetTag ''service-name'' serviceName h2;
          h4 = (case err of None \<Rightarrow> h3 | Some e \<Rightarrow> CaptureException e h3);
          h5 = CaptureMessage entry h4
      in Flush (2 * Second) h5)"

section \<open>The logrus backend\<close>

text \<open>
  The part of logrus (v1.9.3 in \<^verbatim>\<open>go.mod\<close>) that \<^verbatim>\<open>ContextLogger\<close> calls, as the library
  documents it: an entry below the logger's level is dropped; \<^verbatim>\<open>Fatal\<close> logs and then calls
  \<^verbatim>\<open>Exit(1)\<close>; an entry at panic level panics after it is written; \<^verbatim>\<open>Printf\<close> logs at
  info level.
\<close>

datatype level = PanicLevel | FatalLevel | ErrorLevel | WarnLevel | InfoLevel | DebugLevel | TraceLevel

text \<open>The numeric value of a \<^verbatim>\<open>logrus.Level\<close>: the most severe level is the smallest.\<close>

fun level_num :: "level \<Rightarrow> nat" where
  "level_num PanicLevel = 0"
| "level_num FatalLevel = 1"
| "level_num ErrorLevel = 2"
| "level_num WarnLevel = 3"
| "level_num InfoLevel = 4"
| "level_num DebugLevel = 5"
| "level_num TraceLevel = 6"

datatype formatter =
    TextFormatter (TimestampFormat: string) (FullTimestamp: bool) (DisableTimestamp: bool)
  | JSONFormatter

datatype writer = Stdout | Buf

text \<open>A syslog hook: network, remote address, priority and tag it was dialled with.\<close>

datatype hook = SyslogHook string string nat string

definition LOG_DEBUG :: nat where
  "LOG_DEBUG = 7"

record logrus_Logger =
  Out :: writer
  Formatter :: formatter
  Hooks :: "hook list"
  Level :: level

text \<open>
  What the backend writes for one entry: the formatter it was rendered with, its level,
  its message and its data fields. The rendering itself belongs to logrus.
\<close>

record line =
  ln_formatter :: formatter
  ln_level :: level
  ln_msg :: string
  ln_data :: gomap

text \<open>
  The state a \<^verbatim>\<open>ContextLogger\<close> works on. Its three fields are a pointer, a pointer and a
  map, so the copies that the value receivers make share all of it: \<open>logger\<close> is the
  \<^verbatim>\<open>logrus.Logger\<close> pointed to, \<open>buf\<close> the contents of the buffer, \<open>static_context\<close> the field
  \<^verbatim>\<open>context\<close>. Around it: what was written to standard output, what the hooks sent, and
  the error-capture hub.
\<close>

record state =
  logger :: logrus_Logger
  buf :: "line list"
  static_context :: gomap
  stdout :: "line list"
  syslog :: "(hook \<times> line) list"
  sentry :: hub

text \<open>How a call ends: it returns, the process exits, or it panics.\<close>

datatype outcome = Returned | Exited nat | Panicked

definition IsLevelEnabled :: "logrus_Logger \<Rightarrow> level \<Rightarrow> bool" where
  "IsLevelEnabled lg lvl = (level_num lvl \<le> level_num (Level lg))"

text \<open>\<^verbatim>\<open>Entry.log\<close>: the hooks fire, the entry is formatted and written to \<^verbatim>\<open>Out\<close>.\<close>

definition write_entry :: "level \<Rightarrow> string \<Rightarrow> gomap \<Rightarrow> state \<Rightarrow> state" where
  "write_entry lvl msg data s =
     (let ln = \<lparr>ln_formatter = Formatter (logger s), ln_level = lvl, ln_msg = msg, ln_data = data\<rparr>;
          s1 = s\<lparr>syslog := syslog s @ map (\<lambda>h. (h, ln)) (Hooks (logger s))\<rparr>
      in (case Out (logger s1) of
            Stdout \<Rightarrow> s1\<lparr>stdout := stdout s1 @ [ln]\<rparr>
          | Buf \<Rightarrow> s1\<lparr>buf := buf s1 @ [ln]\<rparr>))"

text \<open>
  \<^verbatim>\<open>Entry.Log\<close>: nothing happens below the logger's level; an entry at panic level panics
  once it is written.
\<close>

definition Entry_Log :: "level \<Rightarrow> gomap \<Rightarrow> string \<Rightarrow> state \<Rightarrow> outcome \<times> state" where
  "Entry_Log lvl data msg s =
     (if IsLevelEnabled (logger s) lvl
      then (if lvl = PanicLevel then Panicked else Returned, write_entry lvl msg data s)
      else (Returned, s))"

text \<open>\<^verbatim>\<open>Entry.Fatal\<close>: \<^verbatim>\<open>Log(FatalLevel, ...)\<close>, then \<^verbatim>\<open>Logger.Exit(1)\<close>.\<close>

definition Entry_Fatal :: "gomap \<Rightarrow> string \<Rightarrow> state \<Rightarrow> outcome \<times> state" where
  "Entry_Fatal data msg s = (Exited 1, snd (Entry_Log FatalLevel data msg s))"

text \<open>\<^verbatim>\<open>Logger.Printf\<close> logs at info level with no fields.\<close>

definition Logger_Printf :: "string \<Rightarrow> state \<Rightarrow> outcome \<times> state" where
  "Logger_Printf msg s = Entry_Log InfoLevel [] msg s"

section \<open>ContextLogger\<close>

type_synonym Format = string

definition TextFormat :: Format where
  "TextFormat = ''TEXT''"

definition JSONFormat :: Format where
  "JSONFormat = ''JSON''"

definition getLogrusLevel :: "string \<Rightarrow> level" where
  "getLogrusLevel logLevel =
     (let l = ToLower logLevel
      in if l = ''trace'' then TraceLevel
         else if l = ''debug'' then DebugLevel
         else if l = ''warning'' then WarnLevel
         else if l = ''info'' then InfoLevel
         else InfoLevel)"

definition SetLogFormat :: "Format \<Rightarrow> state \<Rightarrow> state" where
  "SetLogFormat format s =
     (if format = JSONFormat
      then s\<lparr>logger := (logger s)\<lparr>Formatter := JSONFormatter\<rparr>\<rparr>
      else s\<lparr>logger := (logger s)\<lparr>Formatter := TextFormatter ''2006-01-02T15:04:05.000'' True False\<rparr>\<rparr>)"

definition SetLogLevel :: "string \<Rightarrow> state \<Rightarrow> state" where
  "SetLogLevel logLevel s = s\<lparr>logger := (logger s)\<lparr>Level := getLogrusLevel logLevel\<rparr>\<rparr>"

text \<open>
  \<^verbatim>\<open>NewContextLogger\<close>. \<open>hostname\<close> is the answer of \<^verbatim>\<open>os.Hostname()\<close> (\<open>None\<close> when it fails),
  \<open>env\<close> the hub of the process. The struct literal leaves \<^verbatim>\<open>Level\<close> at its zero value.
\<close>

definition NewContextLogger :: "string option \<Rightarrow> hub \<Rightarrow> string \<Rightarrow> string \<Rightarrow> Format \<Rightarrow> state" where
  "NewContextLogger hostname env application logLevel format =
     (let lg = \<lparr>Out = Stdout, Formatter = TextFormatter [] False False, Hooks = [], Level = PanicLevel\<rparr>;
          context = [(''application'', IString application)];
          context = (case hostname of Some host \<Rightarrow> AList.update ''hostname'' (IString host) context
                     | None \<Rightarrow> context);
          contextLogger = \<lparr>logger = lg, buf = [], static_context = context, stdout = [], syslog = [],
                           sentry = env\<rparr>
      in SetLogLevel logLevel (SetLogFormat format contextLogger))"

text \<open>
  \<^verbatim>\<open>prepareContext\<close>: the output is pointed at the buffer, the formatter replaced, then
  the custom fields are copied into a fresh map and the context is copied over them.
\<close>

definition prepareContext :: "gomap \<Rightarrow> gomap \<Rightarrow> state \<Rightarrow> gomap \<times> state" where
  "prepareContext context customFields s =
     (let flds = [];
          s1 = s\<lparr>logger := (logger s)\<lparr>Out := Buf\<rparr>\<rparr>;
          s2 = s1\<lparr>logger := (logger s1)\<lparr>Formatter := TextFormatter [] False True\<rparr>\<rparr>;
          flds = fold (\<lambda>(k, v). AList.update k v) customFields flds;
          flds = fold (\<lambda>(k, v). AList.update k v) context flds
      in (flds, s2))"

text \<open>\<^verbatim>\<open>if err != nil { fields["error"] = err.Error() }\<close>\<close>

definition set_error :: "string option \<Rightarrow> gomap \<Rightarrow> gomap" where
  "set_error err flds =
     (case err of None \<Rightarrow> flds | Some e \<Rightarrow> AList.update ''error'' (IString e) flds)"

text \<open>\<^verbatim>\<open>log\<close>: the switch on the level; the default branch logs at info level.\<close>

definition log :: "level \<Rightarrow> gomap \<Rightarrow> string \<Rightarrow> state \<Rightarrow> outcome \<times> state" where
  "log lvl data entry s =
     (case lvl of
        DebugLevel \<Rightarrow> Entry_Log DebugLevel data entry s
      | ErrorLevel \<Rightarrow> Entry_Log ErrorLevel data entry s
      | FatalLevel \<Rightarrow> Entry_Fatal data entry s
      | PanicLevel \<Rightarrow> Entry_Log PanicLevel data entry s
      | TraceLevel \<Rightarrow> Entry_Log TraceLevel data entry s
      | WarnLevel \<Rightarrow> Entry_Log WarnLevel data entry s
      | InfoLevel \<Rightarrow> Entry_Log InfoLevel data entry s)"

text \<open>
  The tail of \<^verbatim>\<open>WithContext\<close> and \<^verbatim>\<open>Error\<close>, reached only when \<^verbatim>\<open>log\<close> has returned:
  the capture for the three severe levels. The type assertion
  \<^verbatim>\<open>l.context["application"].(string)\<close> panics when the value is not a string.
\<close>

definition capture_severe :: "level \<Rightarrow> gomap \<Rightarrow> string \<Rightarrow> string \<Rightarrow> string option \<Rightarrow> state \<Rightarrow> outcome \<times> state" where
  "capture_severe lvl flds caller entry err s =
     (if lvl = ErrorLevel \<or> lvl = FatalLevel \<or> lvl = PanicLevel
      then (case index (static_context s) ''application'' of
              IString application \<Rightarrow>
                (Returned, s\<lparr>sentry := CaptureError application flds caller entry err (sentry s)\<rparr>)
            | _ \<Rightarrow> (Panicked, s))
      else (Returned, s))"

text \<open>Sequencing: the rest of a method body runs only if the call before it returned.\<close>

definition and_then :: "outcome \<times> state \<Rightarrow> (state \<Rightarrow> outcome \<times> state) \<Rightarrow> outcome \<times> state" where
  "and_then r k = (case r of (Returned, s) \<Rightarrow> k s | (out, s) \<Rightarrow> (out, s))"

text \<open>\<^verbatim>\<open>ContextLogger.WithContext\<close>; its parameter \<^verbatim>\<open>context\<close> is not used by the body.\<close>

definition ContextLogger_WithContext ::
  "level \<Rightarrow> string \<Rightarrow> string \<Rightarrow> gomap \<Rightarrow> string option \<Rightarrow> state \<Rightarrow> outcome \<times> state" where
  "ContextLogger_WithContext lvl caller entry context err s =
     (let (flds, s1) = prepareContext (static_context s) [(''method'', IString caller)] s;
          flds = set_error err flds
      in and_then (log lvl flds entry s1) (capture_severe lvl flds caller entry err))"

definition Log :: "level \<Rightarrow> string \<Rightarrow> string \<Rightarrow> state \<Rightarrow> outcome \<times> state" where
  "Log lvl caller entry s =
     (let (flds, s1) = prepareContext (static_context s) [(''method'', IString caller)] s
      in log lvl flds entry s1)"

text \<open>\<^verbatim>\<open>ContextLogger.Error\<close>\<close>

definition ContextLogger_Error ::
  "level \<Rightarrow> string \<Rightarrow> string \<Rightarrow> string option \<Rightarrow> state \<Rightarrow> outcome \<times> state" where
  "ContextLogger_Error lvl caller entry err s =
     (let (flds, s1) = prepareContext (static_context s) [(''method'', IString caller)] s;
          flds = set_error err flds
      in and_then (log lvl flds entry s1) (capture_severe lvl flds caller entry err))"

definition Default :: "level \<Rightarrow> string \<Rightarrow> string \<Rightarrow> state \<Rightarrow> outcome \<times> state" where
  "Default lvl caller entry s =
     (let (flds, s1) = prepareContext (static_context s) [(''method'', IString caller)] s
      in log lvl flds entry s1)"

definition InvalidParameter ::
  "level \<Rightarrow> string \<Rightarrow> string \<Rightarrow> string option \<Rightarrow> state \<Rightarrow> outcome \<times> state" where
  "InvalidParameter lvl caller parameter err s =
     (let (flds, s1) = prepareContext (static_context s)
                           [(''method'', IString caller), (''parameter'', IString parameter)] s;
          flds = set_error err flds
      in log lvl flds ''invalid parameter'' s1)"

definition InvalidRequestBody :: "level \<Rightarrow> string \<Rightarrow> string option \<Rightarrow> state \<Rightarrow> outcome \<times> state" where
  "InvalidRequestBody lvl caller err s =
     (let (flds, s1) = prepareContext (static_context s) [(''method'', IString caller)] s;
          flds = set_error err flds
      in log lvl flds ''invalid request body'' s1)"

text \<open>
  \<^verbatim>\<open>lSyslog.NewSyslogHook\<close> dials the address; \<open>dial\<close> is the network's answer, the error
  message when the dial fails.
\<close>

definition NewSyslogHook ::
  "(string \<Rightarrow> string \<Rightarrow> string option) \<Rightarrow> string \<Rightarrow> string \<Rightarrow> nat \<Rightarrow> string \<Rightarrow> string + hook" where
  "NewSyslogHook dial network raddr priority tag =
     (case dial network raddr of
        Some err \<Rightarrow> Inl err
      | None \<Rightarrow> Inr (SyslogHook network raddr priority tag))"

definition AddSyslogHook ::
  "(string \<Rightarrow> string \<Rightarrow> string option) \<Rightarrow> string \<Rightarrow> string \<Rightarrow> state \<Rightarrow> outcome \<times> state" where
  "AddSyslogHook dial host port s =
     (case NewSyslogHook dial ''udp'' (host @ '':'' @ port) LOG_DEBUG [] of
        Inr hook \<Rightarrow> (Returned, s\<lparr>logger := (logger s)\<lparr>Hooks := Hooks (logger s) @ [hook]\<rparr>\<rparr>)
      | Inl err \<Rightarrow> Logger_Printf (''Could not hook to syslog, err '' @ err) s)"

definition Output :: "state \<Rightarrow> line list" where
  "Output s = buf s"

section \<open>The zap backend (v2)\<close>

text \<open>
  The part of zap (v1.27.0 in \<^verbatim>\<open>go.mod\<close>) that the v2 package calls: configurations and
  their build, loggers that are never changed once built (\<^verbatim>\<open>With\<close> returns a clone), the
  process-wide global logger.
\<close>

datatype level_encoder = CapitalLevelEncoder | CapitalColorLevelEncoder | LowercaseLevelEncoder

datatype time_encoder = RFC3339TimeEncoder | EpochTimeEncoder

datatype caller_encoder = ShortCallerEncoder

text \<open>\<^verbatim>\<open>zapcore.Level\<close> and its numeric value.\<close>

datatype zapcore_Level =
  ZDebugLevel | ZInfoLevel | ZWarnLevel | ZErrorLevel | ZDPanicLevel | ZPanicLevel | ZFatalLevel

fun zlevel_num :: "zapcore_Level \<Rightarrow> int" where
  "zlevel_num ZDebugLevel = -1"
| "zlevel_num ZInfoLevel = 0"
| "zlevel_num ZWarnLevel = 1"
| "zlevel_num ZErrorLevel = 2"
| "zlevel_num ZDPanicLevel = 3"
| "zlevel_num ZPanicLevel = 4"
| "zlevel_num ZFatalLevel = 5"

record zapcore_EncoderConfig =
  CallerKey :: string
  TimeKey :: string
  LevelKey :: string
  MessageKey :: string
  EncodeLevel :: level_encoder
  EncodeTime :: time_encoder
  EncodeCaller :: caller_encoder

text \<open>\<^verbatim>\<open>zap.Config\<close>; \<open>ZLevel\<close> is its field \<^verbatim>\<open>Level\<close>.\<close>

record zap_Config =
  Encoding :: string
  ZLevel :: zapcore_Level
  OutputPaths :: "string list"
  ErrorOutputPaths :: "string list"
  DisableStacktrace :: bool
  EncoderConfig :: zapcore_EncoderConfig

type_synonym Option = "zap_Config \<Rightarrow> zap_Config"

text \<open>
  \<^verbatim>\<open>SetFormat\<close>: the option it returns, applied to a configuration. The local \<^verbatim>\<open>encoding\<close>
  is assigned once, before the closure is built.
\<close>

definition SetFormat :: "string \<Rightarrow> Option" where
  "SetFormat format c =
     (let encoding = ''console'';
          c = c\<lparr>Encoding := encoding\<rparr>;
          c = c\<lparr>EncoderConfig := (EncoderConfig c)\<lparr>EncodeLevel := CapitalColorLevelEncoder\<rparr>\<rparr>
      in if ToLower format = ''json''
         then (let c = c\<lparr>EncoderConfig := (EncoderConfig c)\<lparr>EncodeLevel := LowercaseLevelEncoder\<rparr>\<rparr>
               in c\<lparr>EncoderConfig := (EncoderConfig c)\<lparr>EncodeTime := EpochTimeEncoder\<rparr>\<rparr>)
         else c)"

definition newZapEncoderConfig :: zapcore_EncoderConfig where
  "newZapEncoderConfig =
     \<lparr>CallerKey = ''caller'', TimeKey = ''time'', LevelKey = ''level'', MessageKey = ''msg'',
      EncodeLevel = CapitalLevelEncoder, EncodeTime = RFC3339TimeEncoder,
      EncodeCaller = ShortCallerEncoder\<rparr>"

text \<open>
  A built \<^verbatim>\<open>zap.Logger\<close>: the configuration of its core, the fields \<^verbatim>\<open>With\<close> has added to
  its context, and the number of caller frames it skips.
\<close>

record zap_Logger =
  core_config :: zap_Config
  core_fields :: "(string \<times> iface) list"
  callerSkip :: nat

text \<open>
  \<^verbatim>\<open>Config.Build\<close> fails when no encoder is registered under the name; zap registers
  \<open>json\<close> and \<open>console\<close>. Opening the output paths is taken to succeed.
\<close>

definition Build :: "zap_Config \<Rightarrow> nat \<Rightarrow> zap_Logger option" where
  "Build config skip =
     (if Encoding config = ''json'' \<or> Encoding config = ''console''
      then Some \<lparr>core_config = config, core_fields = [], callerSkip = skip\<rparr>
      else None)"

text \<open>
  \<^verbatim>\<open>SugaredLogger\<close>'s reading of loosely typed arguments as fields: a string key with the
  value after it; a pair whose key is not a string, and a key without a value, are
  dropped.
\<close>

fun sweetenFields :: "iface list \<Rightarrow> (string \<times> iface) list" where
  "sweetenFields (IString k # v # rest) = (k, v) # sweetenFields rest"
| "sweetenFields (k # v # rest) = sweetenFields rest"
| "sweetenFields _ = []"

text \<open>\<^verbatim>\<open>With\<close> clones the logger and adds the fields to the clone.\<close>

definition With :: "zap_Logger \<Rightarrow> iface list \<Rightarrow> zap_Logger" where
  "With lg args = lg\<lparr>core_fields := core_fields lg @ sweetenFields args\<rparr>"

text \<open>
  A \<^verbatim>\<open>Logger\<close> interface value is nil or points to a \<^verbatim>\<open>ZapLogger\<close>, the only
  implementation; the address is that of the logger it wraps. Go has no dangling pointers:
  the addresses that occur are positions of the heap, and \<open>load\<close> treats any other like nil.
\<close>

datatype Logger = NilLogger | ZapLogger nat

text \<open>An entry handed to the sinks of the logger that wrote it.\<close>

record zap_entry =
  en_config :: zap_Config
  en_level :: zapcore_Level
  en_msg :: string
  en_fields :: "(string \<times> iface) list"

text \<open>
  The process as the v2 package sees it: the loggers allocated so far (an address is a
  position), zap's global logger (\<open>None\<close> until one is installed), and the entries written.
\<close>

record zap_world =
  heap :: "zap_Logger list"
  globalL :: "nat option"
  written :: "zap_entry list"

datatype panic = NilDereference

definition load :: "Logger \<Rightarrow> zap_world \<Rightarrow> zap_Logger option" where
  "load z w = (case z of
                 NilLogger \<Rightarrow> None
               | ZapLogger a \<Rightarrow> if a < length (heap w) then Some (heap w ! a) else None)"

definition alloc :: "zap_Logger \<Rightarrow> zap_world \<Rightarrow> nat \<times> zap_world" where
  "alloc lg w = (length (heap w), w\<lparr>heap := heap w @ [lg]\<rparr>)"

text \<open>\<^verbatim>\<open>for _, value := range values { keyAndvalues = append(keyAndvalues, value.toVariadic()...) }\<close>\<close>

definition flatten :: "gomap list \<Rightarrow> iface list" where
  "flatten values = fold (\<lambda>value keyAndvalues. keyAndvalues @ toVariadic value) values []"

text \<open>
  \<^verbatim>\<open>Debugw\<close>, \<^verbatim>\<open>Infow\<close>, \<^verbatim>\<open>Warnw\<close>, \<^verbatim>\<open>Errorw\<close>: below the level of the configuration nothing
  is written; otherwise the entry carries the logger's fields, then the call's.
\<close>

definition emit :: "zapcore_Level \<Rightarrow> zap_Logger \<Rightarrow> string \<Rightarrow> iface list \<Rightarrow> zap_world \<Rightarrow> zap_world" where
  "emit lvl lg msg keysAndValues w =
     (if zlevel_num (ZLevel (core_config lg)) \<le> zlevel_num lvl
      then w\<lparr>written := written w @
                [\<lparr>en_config = core_config lg, en_level = lvl, en_msg = msg,
                  en_fields = core_fields lg @ sweetenFields keysAndValues\<rparr>]\<rparr>
      else w)"

text \<open>A method called through a nil \<^verbatim>\<open>Logger\<close> panics.\<close>

definition logw :: "zapcore_Level \<Rightarrow> Logger \<Rightarrow> string \<Rightarrow> iface list \<Rightarrow> zap_world \<Rightarrow> panic + zap_world" where
  "logw lvl z msg keysAndValues w =
     (case load z w of
        None \<Rightarrow> Inl NilDereference
      | Some lg \<Rightarrow> Inr (emit lvl lg msg keysAndValues w))"

definition Debug :: "Logger \<Rightarrow> string \<Rightarrow> gomap list \<Rightarrow> zap_world \<Rightarrow> panic + zap_world" where
  "Debug z msg values w = logw ZDebugLevel z msg (flatten values) w"

definition Error :: "Logger \<Rightarrow> string \<Rightarrow> gomap list \<Rightarrow> zap_world \<Rightarrow> panic + zap_world" where
  "Error z msg values w = logw ZErrorLevel z msg (flatten values) w"

definition Info :: "Logger \<Rightarrow> string \<Rightarrow> gomap list \<Rightarrow> zap_world \<Rightarrow> panic + zap_world" where
  "Info z msg values w = logw ZInfoLevel z msg (flatten values) w"

definition Warn :: "Logger \<Rightarrow> string \<Rightarrow> gomap list \<Rightarrow> zap_world \<Rightarrow> panic + zap_world" where
  "Warn z msg values w = logw ZWarnLevel z msg (flatten values) w"

text \<open>\<^verbatim>\<open>WithValues\<close>: a new \<^verbatim>\<open>ZapLogger\<close> around \<^verbatim>\<open>z.With(values.toVariadic()...)\<close>.\<close>

definition WithValues :: "Logger \<Rightarrow> gomap \<Rightarrow> zap_world \<Rightarrow> panic + (Logger \<times> zap_world)" where
  "WithValues z values w =
     (case load z w of
        None \<Rightarrow> Inl NilDereference
      | Some lg \<Rightarrow> (let (a, w1) = alloc (With lg (toVariadic values)) w in Inr (ZapLogger a, w1)))"

text \<open>
  \<^verbatim>\<open>newZapLogger\<close>: the default configuration (\<open>default_config\<close> is its literal), the
  setters applied in order, the build with one caller frame skipped (its error dropped),
  and the new logger installed as zap's global logger by \<^verbatim>\<open>zap.ReplaceGlobals\<close>. When the
  build has failed the logger is nil and installing it dereferences nil.
\<close>

definition default_config :: zap_Config where
  "default_config =
     \<lparr>Encoding = ''json'', ZLevel = ZInfoLevel, OutputPaths = [''stderr''],
      ErrorOutputPaths = [''stderr''], DisableStacktrace = True,
      EncoderConfig = newZapEncoderConfig\<rparr>"

definition newZapLogger :: "Option list \<Rightarrow> zap_world \<Rightarrow> panic + (nat \<times> zap_world)" where
  "newZapLogger setters w =
     (let config = default_config;
          config = fold (\<lambda>setter c. setter c) setters config
      in case Build config 1 of
           None \<Rightarrow> Inl NilDereference
         | Some lg \<Rightarrow> (let (a, w1) = alloc lg w in Inr (a, w1\<lparr>globalL := Some a\<rparr>)))"

definition NewZapLogger :: "Option list \<Rightarrow> zap_world \<Rightarrow> panic + (Logger \<times> zap_world)" where
  "NewZapLogger setters w =
     (case newZapLogger setters w of
        Inl p \<Rightarrow> Inl p
      | Inr (a, w1) \<Rightarrow> Inr (ZapLogger a, w1))"

section \<open>ContextScope (v2)\<close>

text \<open>
  A \<^verbatim>\<open>context.Context\<close> is the background or a value context over a parent. Keys are the
  package's private \<^verbatim>\<open>contextKey\<close> or some key of another package; a value is a
  \<^verbatim>\<open>Logger\<close> or something else.
\<close>

datatype ctx_key = contextKey | foreign_key string

datatype ctx_value = logger_value Logger | foreign_value iface

datatype context_Context = Background | valueCtx context_Context ctx_key ctx_value

text \<open>\<^verbatim>\<open>ctx.Value(key)\<close>: the nearest value stored under the key, \<open>None\<close> for nil.\<close>

fun Value :: "context_Context \<Rightarrow> ctx_key \<Rightarrow> ctx_value option" where
  "Value Background key = None"
| "Value (valueCtx parent k v) key = (if k = key then Some v else Value parent key)"

definition WithValue :: "context_Context \<Rightarrow> ctx_key \<Rightarrow> ctx_value \<Rightarrow> context_Context" where
  "WithValue parent key val = valueCtx parent key val"

text \<open>
  \<^verbatim>\<open>FromContext\<close>: the comma-ok assertion \<^verbatim>\<open>ctx.Value(contextKey).(Logger)\<close> gives nil when
  nothing, or no \<^verbatim>\<open>Logger\<close>, is stored.
\<close>

definition lookup_logger :: "context_Context \<Rightarrow> Logger" where
  "lookup_logger ctx = (case Value ctx contextKey of Some (logger_value l) \<Rightarrow> l | _ \<Rightarrow> NilLogger)"

definition FromContext :: "context_Context \<Rightarrow> zap_world \<Rightarrow> panic + (Logger \<times> zap_world)" where
  "FromContext ctx w =
     (let lg = lookup_logger ctx
      in if lg = NilLogger then NewZapLogger [SetFormat ''json''] w
         else Inr (lg, w))"

definition WithContext :: "context_Context \<Rightarrow> Logger \<Rightarrow> gomap \<Rightarrow> zap_world \<Rightarrow> panic + (context_Context \<times> zap_world)" where
  "WithContext ctx lg values w =
     (if length values > 0
      then (case WithValues lg values w of
              Inl p \<Rightarrow> Inl p
            | Inr (child, w1) \<Rightarrow> Inr (WithValue ctx contextKey (logger_value child), w1))
      else Inr (WithValue ctx contextKey (logger_value lg), w))"

text \<open>The world a call leaves behind, when it has not panicked.\<close>

definition world_after :: "panic + ('a \<times> zap_world) \<Rightarrow> zap_world option" where
  "world_after r = (case r of Inl p \<Rightarrow> None | Inr (x, w) \<Rightarrow> Some w)"

definition value_of :: "panic + ('a \<times> zap_world) \<Rightarrow> 'a option" where
  "value_of r = (case r of Inl p \<Rightarrow> None | Inr (x, w) \<Rightarrow> Some x)"

text \<open>
  A process in which nothing has been allocated, and the same process after the
  application has built its console logger, which is then zap's global logger.
\<close>

definition fresh_world :: zap_world where
  "fresh_world = \<lparr>heap = [], globalL = None, written = []\<rparr>"

definition app_world :: zap_world where
  "app_world = (case NewZapLogger [SetFormat ''console''] fresh_world of
                  Inr (lg, w) \<Rightarrow> w | Inl p \<Rightarrow> fresh_world)"

section \<open>The specification's wording, and concrete inputs\<close>

text \<open>
  The merge order as the specification words it: static context first, then the
  method/caller field, then the error field, then the parameter field, a later writer
  replacing an earlier one on the same key.
\<close>

definition spec_merge_order :: "gomap \<Rightarrow> string \<Rightarrow> string option \<Rightarrow> string option \<Rightarrow> (string \<rightharpoonup> iface)" where
  "spec_merge_order static caller err parameter =
     map_of static
       ++ [''method'' \<mapsto> IString caller]
       ++ (case err of None \<Rightarrow> Map.empty | Some e \<Rightarrow> [''error'' \<mapsto> IString e])
       ++ (case parameter of None \<Rightarrow> Map.empty | Some p \<Rightarrow> [''parameter'' \<mapsto> IString p])"

text \<open>
  After a call, the logger writes to the buffer with the timestamp-less text formatter:
  standard output is untouched, the buffer has only grown, and every line added to it was
  rendered by that formatter.
\<close>

definition emitted_to_buffer :: "state \<Rightarrow> state \<Rightarrow> bool" where
  "emitted_to_buffer s s' =
     (Out (logger s') = Buf \<and> Formatter (logger s') = TextFormatter [] False True
      \<and> stdout s' = stdout s
      \<and> take (length (buf s)) (buf s') = buf s
      \<and> list_all (\<lambda>ln. ln_formatter ln = TextFormatter [] False True) (drop (length (buf s)) (buf s')))"

text \<open>A hub on which nothing has happened yet, and loggers built by the constructor.\<close>

definition empty_hub :: hub where
  "empty_hub = \<lparr>contexts = [], tags = [], events = [], flushes = []\<rparr>"

definition svc_logger :: state where
  "svc_logger = NewContextLogger (Some ''host1'') empty_hub ''svc'' ''debug'' TextFormat"

definition warning_logger :: state where
  "warning_logger = NewContextLogger None empty_hub ''svc'' ''warning'' TextFormat"


text \<open>The fields of an entry, as a map with two keys.\<close>

definition two_fields :: gomap where
  "two_fields = [(''application'', IString ''svc''), (''method'', IString ''caller1'')]"

text \<open>A network on which every dial fails.\<close>

definition no_route :: "string \<Rightarrow> string \<Rightarrow> string option" where
  "no_route network raddr = Some ''dial udp: lookup nohost: no such host''"

text \<open>
  The logger that \<open>FromContext\<close> falls back to: built from the default configuration with
  the option \<open>SetFormat json\<close> applied, no fixed fields, one caller frame skipped.
\<close>

definition fallback_logger :: zap_Logger where
  "fallback_logger = \<lparr>core_config = SetFormat ''json'' default_config, core_fields = [],
                       callerSkip = 1\<rparr>"

text \<open>Field sets for two request-scoped children, and the application's logger.\<close>

definition tracking_fields :: gomap where
  "tracking_fields = [(''TrackingID'', IString ''t1'')]"

definition user_fields :: gomap where
  "user_fields = [(''UserID'', IString ''u7'')]"

definition console_logger :: zap_Logger where
  "console_logger = \<lparr>core_config = SetFormat ''console'' default_config, core_fields = [], callerSkip = 1\<rparr>"

section \<open>Properties of toVariadic\<close>

lemma fold_append_keys: "fold (\<lambda>(key, _) acc. acc @ [key]) v ks = ks @ map fst v"
  by (induction v arbitrary: ks) (auto simp: case_prod_beta)

lemma range_keys_eq: "range_keys v = map fst v"
  by (simp add: range_keys_def fold_append_keys)

lemma fold_append_pairs:
  "fold (\<lambda>key acc. acc @ [IString key, f key]) ks acc0
     = acc0 @ concat (map (\<lambda>key. [IString key, f key]) ks)"
  by (induction ks arbitrary: acc0) auto

lemma toVariadic_concat:
  "toVariadic v = concat (map (\<lambda>key. [IString key, index v key]) (sort (map fst v)))"
  by (simp add: toVariadic_def range_keys_eq fold_append_pairs)

lemma keysOfPairs_concat:
  "keysOfPairs (concat (map (\<lambda>key. [IString key, f key]) ks)) = map IString ks"
  by (induction ks) auto

lemma valuesOfPairs_concat:
  "valuesOfPairs (concat (map (\<lambda>key. [IString key, f key]) ks)) = map f ks"
  by (induction ks) auto

lemma pairsToMap_concat:
  "pairsToMap m (concat (map (\<lambda>key. [IString key, f key]) ks))
     = (\<lambda>x. if x \<in> set ks then Some (f x) else m x)"
proof (induction ks arbitrary: m)
  case Nil
  show ?case by simp
next
  case (Cons k ks)
  show ?case by (auto simp: Cons.IH fun_eq_iff)
qed

lemma index_map_of: "map_of v k = Some x \<Longrightarrow> index v k = x"
  by (simp add: index_def)

lemma pairsToMap_toVariadic: "pairsToMap Map.empty (toVariadic v) = map_of v"
proof
  fix x
  show "pairsToMap Map.empty (toVariadic v) x = map_of v x"
  proof (cases "map_of v x")
    case None
    then have "x \<notin> fst ` set v" by (simp add: map_of_eq_None_iff)
    with None show ?thesis by (simp add: toVariadic_concat pairsToMap_concat)
  next
    case (Some y)
    then have "x \<in> fst ` set v" by (rule map_of_SomeD [THEN image_eqI [where f = fst, rotated]]) simp
    with Some show ?thesis
      by (simp add: toVariadic_concat pairsToMap_concat index_map_of)
  qed
qed

text \<open>
  C1. For every mapping (an association list with distinct keys, in any iteration order),
  \<open>toVariadic\<close> returns a flat alternating sequence of keys and their values, the keys in
  strictly ascending lexicographic order; the empty mapping gives the empty sequence; and
  reading the pairs back into a mapping gives the original mapping.
\<close>

theorem toVariadic_sorted_roundtrip:
  assumes "wf_gomap v"
  shows "keysOfPairs (toVariadic v) = map IString (sort (map fst v))
       \<and> valuesOfPairs (toVariadic v) = map (index v) (sort (map fst v))
       \<and> length (toVariadic v) = 2 * length v
       \<and> sorted_wrt (<) (sort (map fst v))
       \<and> set (sort (map fst v)) = dom (map_of v)
       \<and> toVariadic [] = []
       \<and> pairsToMap Map.empty (toVariadic v) = map_of v"
proof -
  have "distinct (sort (map fst v))" using assms by (simp add: wf_gomap_def)
  then have "sorted_wrt (<) (sort (map fst v))" by (simp add: strict_sorted_iff)
  moreover have "length (toVariadic v) = 2 * length v"
    by (simp add: toVariadic_concat length_concat o_def sum_list_triv)
  moreover have "set (sort (map fst v)) = dom (map_of v)" by (simp add: dom_map_of_conv_image_fst)
  moreover have "toVariadic [] = []" by (simp add: toVariadic_def range_keys_def)
  ultimately show ?thesis
    by (simp add: pairsToMap_toVariadic) (simp add: toVariadic_concat keysOfPairs_concat valuesOfPairs_concat)
qed

theorem toVariadic_sorted_roundtrip_witness:
  "wf_gomap [(''b'', IInt 2), (''a'', IInt 1)]
   \<and> toVariadic [(''b'', IInt 2), (''a'', IInt 1)] = [IString ''a'', IInt 1, IString ''b'', IInt 2]
   \<and> pairsToMap Map.empty (toVariadic [(''b'', IInt 2), (''a'', IInt 1)])
       = map_of [(''b'', IInt 2), (''a'', IInt 1)]"
proof -
  have w: "wf_gomap [(''b'', IInt 2), (''a'', IInt 1)]" by (simp add: wf_gomap_def)
  have e: "toVariadic [(''b'', IInt 2), (''a'', IInt 1)] = [IString ''a'', IInt 1, IString ''b'', IInt 2]"
    by (simp add: toVariadic_def range_keys_def index_def)
  show ?thesis using w e toVariadic_sorted_roundtrip [OF w] by simp
qed

section \<open>Properties of the capture sink and of ContextLogger\<close>


lemma wf_fold_update:
  "wf_gomap acc \<Longrightarrow> wf_gomap (fold (\<lambda>(k, v). AList.update k v) xs acc)"
  by (induction xs arbitrary: acc) (auto simp: wf_gomap_def distinct_update)

lemma log_cases:
  "log lvl data entry s
     = (if lvl = FatalLevel then Entry_Fatal data entry s else Entry_Log lvl data entry s)"
  by (cases lvl) (simp_all add: log_def)

lemma write_entry_frame:
  "logger (write_entry lvl msg data s) = logger s"
  "sentry (write_entry lvl msg data s) = sentry s"
  "static_context (write_entry lvl msg data s) = static_context s"
  by (simp_all add: write_entry_def Let_def split: writer.splits)

lemma Entry_Log_frame:
  "logger (snd (Entry_Log lvl data msg s)) = logger s"
  "sentry (snd (Entry_Log lvl data msg s)) = sentry s"
  "static_context (snd (Entry_Log lvl data msg s)) = static_context s"
  by (simp_all add: Entry_Log_def write_entry_frame)

lemma log_frame:
  "logger (snd (log lvl data msg s)) = logger s"
  "sentry (snd (log lvl data msg s)) = sentry s"
  "static_context (snd (log lvl data msg s)) = static_context s"
  by (simp_all add: log_cases Entry_Fatal_def Entry_Log_frame)

lemma log_outcome:
  "fst (log lvl data msg s)
     = (if lvl = FatalLevel then Exited 1 else if lvl = PanicLevel then Panicked else Returned)"
  by (cases lvl) (simp_all add: log_def Entry_Fatal_def Entry_Log_def IsLevelEnabled_def)


lemma prepareContext_state:
  "snd (prepareContext c cf s)
     = s\<lparr>logger := (logger s)\<lparr>Out := Buf, Formatter := TextFormatter [] False True\<rparr>\<rparr>"
  by (simp add: prepareContext_def Let_def)



lemma CaptureError_flushes:
  "flushes (CaptureError sv flds c e err h) = flushes h @ [2 * Second]"
proof -
  have f: "flushes (fold (\<lambda>(k, v). SetContext ''log'' [(k, v)]) flds h) = flushes h" for h
    by (induction flds arbitrary: h) (auto simp: SetContext_def)
  show ?thesis
    by (cases err) (simp_all add: CaptureError_def Let_def Flush_def CaptureMessage_def
        CaptureException_def SetTag_def f)
qed

lemma contexts_SetContext: "contexts (SetContext k v h) = AList.update k v (contexts h)"
  by (simp add: SetContext_def)

lemma fold_SetContext_last:
  "contexts (fold (\<lambda>a. SetContext ''log'' [a]) flds h)
     = (if flds = [] then contexts h else AList.update ''log'' [last flds] (contexts h))"
  by (induction flds arbitrary: h) (simp_all add: contexts_SetContext)

lemma fold_SetContext_contexts:
  "contexts (fold (\<lambda>(k, v). SetContext ''log'' [(k, v)]) flds h)
     = (if flds = [] then contexts h else AList.update ''log'' [last flds] (contexts h))"
proof -
  have "(\<lambda>(k, v). SetContext ''log'' [(k, v)]) = (\<lambda>a. SetContext ''log'' [a])"
    by (simp add: fun_eq_iff)
  then show ?thesis by (simp only: fold_SetContext_last)
qed

lemma WithContext_normal:
  "ContextLogger_WithContext lvl caller entry ctx err s
     = and_then (log lvl (set_error err (fst (prepareContext (static_context s) [(''method'', IString caller)] s)))
                   entry (snd (prepareContext (static_context s) [(''method'', IString caller)] s)))
         (capture_severe lvl (set_error err (fst (prepareContext (static_context s) [(''method'', IString caller)] s))) caller entry err)"
  by (simp add: ContextLogger_WithContext_def Let_def split: prod.splits)

lemma and_then_not_returned: "fst r \<noteq> Returned \<Longrightarrow> and_then r k = r"
  by (cases r) (auto simp: and_then_def split: outcome.splits)

lemma and_then_returned: "fst r = Returned \<Longrightarrow> and_then r k = k (snd r)"
  by (cases r) (auto simp: and_then_def split: outcome.splits)

lemma fatal_no_capture:
  "fst (ContextLogger_WithContext FatalLevel caller entry ctx err s) = Exited 1
   \<and> sentry (snd (ContextLogger_WithContext FatalLevel caller entry ctx err s)) = sentry s
   \<and> fst (ContextLogger_WithContext PanicLevel caller entry ctx err s) = Panicked
   \<and> sentry (snd (ContextLogger_WithContext PanicLevel caller entry ctx err s)) = sentry s"
  by (simp add: WithContext_normal and_then_not_returned log_outcome log_frame prepareContext_state)

lemma svc_logger_eq:
  "svc_logger = \<lparr>logger = \<lparr>Out = Stdout, Formatter = TextFormatter ''2006-01-02T15:04:05.000'' True False,
                            Hooks = [], Level = DebugLevel\<rparr>,
                 buf = [], static_context = [(''application'', IString ''svc''), (''hostname'', IString ''host1'')],
                 stdout = [], syslog = [], sentry = empty_hub\<rparr>"
  by (simp add: svc_logger_def NewContextLogger_def Let_def SetLogLevel_def SetLogFormat_def
      TextFormat_def JSONFormat_def getLogrusLevel_def ToLower_def toLowerChar_def)

lemma Error_normal:
  "ContextLogger_Error lvl caller entry err s
     = and_then (log lvl (set_error err (fst (prepareContext (static_context s) [(''method'', IString caller)] s)))
                   entry (snd (prepareContext (static_context s) [(''method'', IString caller)] s)))
         (capture_severe lvl (set_error err (fst (prepareContext (static_context s) [(''method'', IString caller)] s))) caller entry err)"
  by (simp add: ContextLogger_Error_def Let_def split: prod.splits)

lemma Error_fatal_no_capture:
  "fst (ContextLogger_Error FatalLevel caller entry err s) = Exited 1
   \<and> sentry (snd (ContextLogger_Error FatalLevel caller entry err s)) = sentry s
   \<and> fst (ContextLogger_Error PanicLevel caller entry err s) = Panicked
   \<and> sentry (snd (ContextLogger_Error PanicLevel caller entry err s)) = sentry s"
  by (simp add: Error_normal and_then_not_returned log_outcome log_frame prepareContext_state)

text \<open>
  C2. The capture sink is meant to be invoked once at error, fatal and panic severity. At
  fatal severity the backend ends the process inside \<open>log\<close>, and at panic severity it
  panics there, so the capture that follows is never reached: on a logger built by the
  constructor, \<open>WithContext\<close> and \<open>Error\<close> at these two levels leave the hub without any
  flush or event.
\<close>

theorem fatal_and_panic_never_reach_capture:
  "fst (ContextLogger_WithContext FatalLevel ''caller1'' ''disk gone'' [] (Some ''EIO'') svc_logger) = Exited 1
   \<and> flushes (sentry (snd (ContextLogger_WithContext FatalLevel ''caller1'' ''disk gone'' [] (Some ''EIO'') svc_logger))) = []
   \<and> events (sentry (snd (ContextLogger_WithContext FatalLevel ''caller1'' ''disk gone'' [] (Some ''EIO'') svc_logger))) = []
   \<and> fst (ContextLogger_WithContext PanicLevel ''caller1'' ''disk gone'' [] (Some ''EIO'') svc_logger) = Panicked
   \<and> flushes (sentry (snd (ContextLogger_WithContext PanicLevel ''caller1'' ''disk gone'' [] (Some ''EIO'') svc_logger))) = []
   \<and> fst (ContextLogger_Error FatalLevel ''caller1'' ''disk gone'' (Some ''EIO'') svc_logger) = Exited 1
   \<and> flushes (sentry (snd (ContextLogger_Error FatalLevel ''caller1'' ''disk gone'' (Some ''EIO'') svc_logger))) = []
   \<and> fst (ContextLogger_Error PanicLevel ''caller1'' ''disk gone'' (Some ''EIO'') svc_logger) = Panicked
   \<and> flushes (sentry (snd (ContextLogger_Error PanicLevel ''caller1'' ''disk gone'' (Some ''EIO'') svc_logger))) = []"
  by (simp add: fatal_no_capture Error_fatal_no_capture) (simp add: svc_logger_eq empty_hub_def)

lemma capture_at_error_level:
  assumes "index (static_context s) ''application'' = IString app"
  shows "fst (ContextLogger_WithContext ErrorLevel caller entry ctx err s) = Returned"
    and "sentry (snd (ContextLogger_WithContext ErrorLevel caller entry ctx err s))
           = CaptureError app (set_error err (fst (prepareContext (static_context s) [(''method'', IString caller)] s)))
               caller entry err (sentry s)"
    and "flushes (sentry (snd (ContextLogger_WithContext ErrorLevel caller entry ctx err s)))
           = flushes (sentry s) @ [2 * Second]"
  using assms
  by (simp_all add: WithContext_normal and_then_returned log_outcome log_frame prepareContext_state
      capture_severe_def CaptureError_flushes)

lemma no_capture_below_error:
  assumes "lvl \<in> {WarnLevel, InfoLevel, DebugLevel, TraceLevel}"
  shows "fst (ContextLogger_WithContext lvl caller entry ctx err s) = Returned"
    and "sentry (snd (ContextLogger_WithContext lvl caller entry ctx err s)) = sentry s"
  using assms
  by (auto simp add: WithContext_normal and_then_returned log_outcome log_frame prepareContext_state
      capture_severe_def)

text \<open>
  C7. The fields are meant to be attached as one context block. Every field is stored
  under the same key \<open>log\<close> as a block of its own, each replacing the one before: for an
  entry with the two fields \<open>application\<close> and \<open>method\<close>, the scope and both captured
  events carry a block holding only the field visited last, and \<open>application\<close> is lost.
\<close>

theorem CaptureError_overwrites_log_block:
  "contexts (CaptureError ''svc'' two_fields ''caller1'' ''disk gone'' (Some ''EIO'') empty_hub)
     = [(''log'', [(''method'', IString ''caller1'')])]
   \<and> map ev_contexts (events (CaptureError ''svc'' two_fields ''caller1'' ''disk gone'' (Some ''EIO'') empty_hub))
     = [[(''log'', [(''method'', IString ''caller1'')])], [(''log'', [(''method'', IString ''caller1'')])]]
   \<and> map_of two_fields ''application'' = Some (IString ''svc'')"
  by (simp add: CaptureError_def two_fields_def empty_hub_def Let_def SetContext_def SetTag_def
      CaptureException_def CaptureMessage_def Flush_def)

lemma CaptureError_effects:
  "tags (CaptureError sv flds caller entry err h)
     = AList.update ''service-name'' sv (AList.update ''method'' caller (tags h))"
  "map ev_kind (events (CaptureError sv flds caller entry err h))
     = map ev_kind (events h) @ (case err of None \<Rightarrow> [] | Some e \<Rightarrow> [Exception e]) @ [Message entry]"
  "flushes (CaptureError sv flds caller entry err h) = flushes h @ [2 * Second]"
  "contexts (CaptureError sv flds caller entry err h)
     = (if flds = [] then contexts h else AList.update ''log'' [last flds] (contexts h))"
proof -
  have t: "tags (fold (\<lambda>(k, v). SetContext ''log'' [(k, v)]) flds h) = tags h" for h
    by (induction flds arbitrary: h) (auto simp: SetContext_def)
  have e: "events (fold (\<lambda>(k, v). SetContext ''log'' [(k, v)]) flds h) = events h" for h
    by (induction flds arbitrary: h) (auto simp: SetContext_def)
  show "tags (CaptureError sv flds caller entry err h)
     = AList.update ''service-name'' sv (AList.update ''method'' caller (tags h))"
    by (cases err) (simp_all add: CaptureError_def Let_def Flush_def CaptureMessage_def
        CaptureException_def SetTag_def t)
  show "map ev_kind (events (CaptureError sv flds caller entry err h))
     = map ev_kind (events h) @ (case err of None \<Rightarrow> [] | Some e \<Rightarrow> [Exception e]) @ [Message entry]"
    by (cases err) (simp_all add: CaptureError_def Let_def Flush_def CaptureMessage_def
        CaptureException_def SetTag_def e)
  show "flushes (CaptureError sv flds caller entry err h) = flushes h @ [2 * Second]"
    by (rule CaptureError_flushes)
  show "contexts (CaptureError sv flds caller entry err h)
     = (if flds = [] then contexts h else AList.update ''log'' [last flds] (contexts h))"
    by (cases err) (simp_all add: CaptureError_def Let_def Flush_def CaptureMessage_def
        CaptureException_def SetTag_def fold_SetContext_contexts del: fold_simps)
qed

lemma write_entry_Buf:
  "Out (logger s) = Buf \<Longrightarrow>
     buf (write_entry lvl msg data s)
       = buf s @ [\<lparr>ln_formatter = Formatter (logger s), ln_level = lvl, ln_msg = msg, ln_data = data\<rparr>]
     \<and> stdout (write_entry lvl msg data s) = stdout s"
  by (simp add: write_entry_def Let_def)

lemma log_Buf:
  assumes "Out (logger s) = Buf"
  shows "buf (snd (log lvl data msg s))
           = (if IsLevelEnabled (logger s) lvl
              then buf s @ [\<lparr>ln_formatter = Formatter (logger s), ln_level = lvl, ln_msg = msg, ln_data = data\<rparr>]
              else buf s)"
    and "stdout (snd (log lvl data msg s)) = stdout s"
  using assms by (simp_all add: log_cases Entry_Fatal_def Entry_Log_def write_entry_Buf)

lemma capture_severe_frame:
  "logger (snd (capture_severe lvl flds caller entry err s)) = logger s"
  "buf (snd (capture_severe lvl flds caller entry err s)) = buf s"
  "stdout (snd (capture_severe lvl flds caller entry err s)) = stdout s"
  by (simp_all add: capture_severe_def split: iface.splits)

lemma and_then_frame:
  assumes "\<And>t. logger (snd (k t)) = logger t" "\<And>t. buf (snd (k t)) = buf t" "\<And>t. stdout (snd (k t)) = stdout t"
  shows "logger (snd (and_then r k)) = logger (snd r)"
    and "buf (snd (and_then r k)) = buf (snd r)"
    and "stdout (snd (and_then r k)) = stdout (snd r)"
  using assms by (cases r; cases "fst r"; simp add: and_then_def)+

lemma prepared_log_emits:
  "emitted_to_buffer s (snd (log lvl data msg (snd (prepareContext c cf s))))"
  by (simp add: emitted_to_buffer_def log_frame log_Buf prepareContext_state)

lemma prepared_log_capture_emits:
  "emitted_to_buffer s
     (snd (and_then (log lvl data msg (snd (prepareContext c cf s))) (capture_severe lvl flds caller entry err)))"
  by (simp add: emitted_to_buffer_def and_then_frame capture_severe_frame log_frame log_Buf prepareContext_state)

lemma Log_normal:
  "Log lvl caller entry s
     = log lvl (fst (prepareContext (static_context s) [(''method'', IString caller)] s)) entry
         (snd (prepareContext (static_context s) [(''method'', IString caller)] s))"
  "Default lvl caller entry s
     = log lvl (fst (prepareContext (static_context s) [(''method'', IString caller)] s)) entry
         (snd (prepareContext (static_context s) [(''method'', IString caller)] s))"
  by (simp_all add: Log_def Default_def Let_def split: prod.splits)

lemma Invalid_normal:
  "InvalidParameter lvl caller parameter err s
     = log lvl (set_error err (fst (prepareContext (static_context s)
                   [(''method'', IString caller), (''parameter'', IString parameter)] s)))
         ''invalid parameter''
         (snd (prepareContext (static_context s)
                   [(''method'', IString caller), (''parameter'', IString parameter)] s))"
  "InvalidRequestBody lvl caller err s
     = log lvl (set_error err (fst (prepareContext (static_context s) [(''method'', IString caller)] s)))
         ''invalid request body''
         (snd (prepareContext (static_context s) [(''method'', IString caller)] s))"
  by (simp_all add: InvalidParameter_def InvalidRequestBody_def Let_def split: prod.splits)

text \<open>
  C10. Each of the six operations that prepare merged fields points the logger at the
  buffer and installs the timestamp-less text formatter before it emits: afterwards the
  logger is in that mode, nothing was added to standard output, and whatever the call
  emitted went to the buffer in that format. This holds from every state, in particular
  right after \<open>SetLogFormat\<close> and right after construction with standard output.
\<close>

theorem every_operation_redirects_to_buffer:
  "emitted_to_buffer s (snd (ContextLogger_WithContext lvl caller entry ctx err s))
   \<and> emitted_to_buffer s (snd (Log lvl caller entry s))
   \<and> emitted_to_buffer s (snd (ContextLogger_Error lvl caller entry err s))
   \<and> emitted_to_buffer s (snd (Default lvl caller entry s))
   \<and> emitted_to_buffer s (snd (InvalidParameter lvl caller parameter err s))
   \<and> emitted_to_buffer s (snd (InvalidRequestBody lvl caller err s))
   \<and> emitted_to_buffer (SetLogFormat format s) (snd (Log lvl caller entry (SetLogFormat format s)))
   \<and> emitted_to_buffer (NewContextLogger hostname env application logLevel format)
        (snd (Log lvl caller entry (NewContextLogger hostname env application logLevel format)))"
  by (simp add: WithContext_normal Error_normal Log_normal Invalid_normal prepared_log_emits
      prepared_log_capture_emits)

theorem every_operation_redirects_to_buffer_witness:
  "emitted_to_buffer svc_logger (snd (Log InfoLevel ''caller1'' ''disk low'' svc_logger))
   \<and> Out (logger svc_logger) = Stdout
   \<and> stdout (snd (Log InfoLevel ''caller1'' ''disk low'' svc_logger)) = []
   \<and> buf (snd (Log InfoLevel ''caller1'' ''disk low'' svc_logger))
       = [\<lparr>ln_formatter = TextFormatter [] False True, ln_level = InfoLevel, ln_msg = ''disk low'',
           ln_data = [(''method'', IString ''caller1''), (''application'', IString ''svc''),
                      (''hostname'', IString ''host1'')]\<rparr>]"
proof -
  have "buf (snd (Log InfoLevel ''caller1'' ''disk low'' svc_logger))
       = [\<lparr>ln_formatter = TextFormatter [] False True, ln_level = InfoLevel, ln_msg = ''disk low'',
           ln_data = [(''method'', IString ''caller1''), (''application'', IString ''svc''),
                      (''hostname'', IString ''host1'')]\<rparr>]"
    by (simp add: svc_logger_eq Log_def prepareContext_def log_def Entry_Log_def IsLevelEnabled_def
        write_entry_def Let_def)
  moreover have "Out (logger svc_logger) = Stdout" by (simp add: svc_logger_eq)
  moreover have "stdout svc_logger = []" by (simp add: svc_logger_eq)
  ultimately show ?thesis
    using every_operation_redirects_to_buffer [of svc_logger InfoLevel "''caller1''" "''disk low''"]
    by (simp add: emitted_to_buffer_def)
qed


lemma warning_logger_eq:
  "warning_logger = \<lparr>logger = \<lparr>Out = Stdout, Formatter = TextFormatter ''2006-01-02T15:04:05.000'' True False,
                            Hooks = [], Level = WarnLevel\<rparr>,
                 buf = [], static_context = [(''application'', IString ''svc'')],
                 stdout = [], syslog = [], sentry = empty_hub\<rparr>"
  by (simp add: warning_logger_def NewContextLogger_def Let_def SetLogLevel_def SetLogFormat_def
      TextFormat_def JSONFormat_def getLogrusLevel_def ToLower_def toLowerChar_def)






text \<open>
  On a logger built by \<open>NewContextLogger\<close> the static context has the keys \<open>application\<close>
  and \<open>hostname\<close> only, no writer shares a key with another, and the order of the code and
  the order of the specification give the same fields.
\<close>

lemma NewContextLogger_context:
  "static_context (NewContextLogger hostname env application logLevel format)
     = (case hostname of None \<Rightarrow> [(''application'', IString application)]
        | Some host \<Rightarrow> [(''application'', IString application), (''hostname'', IString host)])"
  by (cases hostname) (simp_all add: NewContextLogger_def Let_def SetLogLevel_def SetLogFormat_def)

lemma merge_order_agrees_on_constructed:
  assumes "static = static_context (NewContextLogger hostname env application logLevel format)"
  shows "map_of [(''method'', IString caller), (''parameter'', IString parameter)] ++ map_of static
           ++ (case err of None \<Rightarrow> Map.empty | Some e \<Rightarrow> [''error'' \<mapsto> IString e])
         = spec_merge_order static caller err (Some parameter)"
    and "map_of [(''method'', IString caller)] ++ map_of static
           ++ (case err of None \<Rightarrow> Map.empty | Some e \<Rightarrow> [''error'' \<mapsto> IString e])
         = spec_merge_order static caller err None"
  unfolding assms NewContextLogger_context spec_merge_order_def
  by (cases hostname; cases err; simp add: fun_eq_iff map_add_def)+

text \<open>
  C9, as stated, fails: on a logger whose level is \<open>warning\<close>, a failed dial emits nothing
  at all and leaves the state as it was; on a logger that admits info entries, the entry
  emitted has info severity, not warning severity.
\<close>

theorem failed_hook_at_warning_level_is_silent:
  "AddSyslogHook no_route ''nohost'' ''514'' warning_logger = (Returned, warning_logger)
   \<and> stdout warning_logger = [] \<and> buf warning_logger = [] \<and> syslog warning_logger = []
   \<and> map ln_level (stdout (snd (AddSyslogHook no_route ''nohost'' ''514'' svc_logger))) = [InfoLevel]"
  by (simp add: AddSyslogHook_def NewSyslogHook_def no_route_def Logger_Printf_def Entry_Log_def
      IsLevelEnabled_def warning_logger_eq svc_logger_eq write_entry_def Let_def)

text \<open>
  C9, amended. \<open>AddSyslogHook\<close> always returns. When the dial fails, the message
  \<open>Could not hook to syslog, err ...\<close> is logged at info severity (so it is emitted only
  if the logger's level admits info entries), no hook is attached and the logger is left
  as it was; when the dial succeeds, a UDP syslog hook with priority \<open>LOG_DEBUG\<close> is
  attached. In both cases later \<open>Log\<close> calls at info and debug severity return.
\<close>

theorem AddSyslogHook_never_aborts:
  "fst (AddSyslogHook dial host port s) = Returned
   \<and> (case dial ''udp'' (host @ '':'' @ port) of
        Some err \<Rightarrow>
          snd (AddSyslogHook dial host port s)
            = (if IsLevelEnabled (logger s) InfoLevel
               then write_entry InfoLevel (''Could not hook to syslog, err '' @ err) [] s
               else s)
          \<and> logger (snd (AddSyslogHook dial host port s)) = logger s
      | None \<Rightarrow>
          snd (AddSyslogHook dial host port s)
            = s\<lparr>logger := (logger s)\<lparr>Hooks := Hooks (logger s)
                                  @ [SyslogHook ''udp'' (host @ '':'' @ port) LOG_DEBUG []]\<rparr>\<rparr>)
   \<and> fst (Log InfoLevel caller entry (snd (AddSyslogHook dial host port s))) = Returned
   \<and> fst (Log DebugLevel caller entry (snd (AddSyslogHook dial host port s))) = Returned"
  by (simp add: AddSyslogHook_def NewSyslogHook_def Logger_Printf_def Entry_Log_def write_entry_frame
      Log_normal log_outcome split: option.splits)

section \<open>Properties of the zap adapter and of ContextScope\<close>

lemma ToLower_json [simp]: "ToLower ''json'' = ''json''" "ToLower ''JSON'' = ''json''"
  "ToLower ''console'' = ''console''"
  by code_simp+

lemma SetFormat_general:
  "Encoding (SetFormat format c) = ''console''"
  "EncodeLevel (EncoderConfig (SetFormat format c))
     = (if ToLower format = ''json'' then LowercaseLevelEncoder else CapitalColorLevelEncoder)"
  "EncodeTime (EncoderConfig (SetFormat format c))
     = (if ToLower format = ''json'' then EpochTimeEncoder else EncodeTime (EncoderConfig c))"
  by (simp_all add: SetFormat_def Let_def)

text \<open>
  C4. The format \<open>json\<close> is meant to select the machine-readable encoding. The option
  stores the local \<open>encoding\<close>, which is never anything but \<open>console\<close>: with \<open>json\<close> (in
  any case) the configuration gets lower-case level names and epoch timestamps, but its
  encoding is \<open>console\<close>, also when it was \<open>json\<close> before, as in the default configuration.
\<close>

theorem SetFormat_json_encoding_is_console:
  "Encoding (SetFormat ''json'' c) = ''console''
   \<and> Encoding (SetFormat ''JSON'' c) = ''console''
   \<and> Encoding (SetFormat ''json'' default_config) \<noteq> ''json''
   \<and> EncodeLevel (EncoderConfig (SetFormat ''json'' c)) = LowercaseLevelEncoder
   \<and> EncodeTime (EncoderConfig (SetFormat ''json'' c)) = EpochTimeEncoder"
  by (simp add: SetFormat_general)

lemma Build_SetFormat:
  "Build (SetFormat format c) skip = Some \<lparr>core_config = SetFormat format c, core_fields = [], callerSkip = skip\<rparr>"
  by (simp add: Build_def SetFormat_general)

lemma NewZapLogger_SetFormat:
  "NewZapLogger [SetFormat format] w
     = Inr (ZapLogger (length (heap w)),
            w\<lparr>heap := heap w @ [\<lparr>core_config = SetFormat format default_config, core_fields = [],
                                  callerSkip = 1\<rparr>],
              globalL := Some (length (heap w))\<rparr>)"
  by (simp add: NewZapLogger_def newZapLogger_def Let_def Build_SetFormat alloc_def)

lemma app_world_eq:
  "app_world = \<lparr>heap = [\<lparr>core_config = SetFormat ''console'' default_config, core_fields = [], callerSkip = 1\<rparr>],
                globalL = Some 0, written = []\<rparr>"
  by (simp add: app_world_def NewZapLogger_SetFormat fresh_world_def)

text \<open>
  C6, as stated, fails: the fallback is not free of side effects. In a process whose
  global logger is the application's console logger (address 0), retrieving from a scope
  with no logger bound returns a new logger (address 1) and leaves it installed as the
  global logger.
\<close>

theorem FromContext_replaces_global_logger:
  "map_option globalL (world_after (FromContext Background app_world)) = Some (Some 1)
   \<and> globalL app_world = Some 0
   \<and> value_of (FromContext Background app_world) = Some (ZapLogger 1)"
  by (simp add: FromContext_def lookup_logger_def NewZapLogger_SetFormat world_after_def value_of_def
      app_world_eq)

text \<open>
  C6, amended. From a scope with no logger bound, \<open>FromContext\<close> never panics and returns
  a logger that did not exist before, built from the default configuration with
  \<open>SetFormat json\<close> applied, without fixed fields, and installs it as zap's global logger.
  A second retrieval does the same again: another new logger, equal to the first, and
  the global logger replaced once more.
\<close>

theorem FromContext_unbound_builds_and_installs:
  assumes "lookup_logger ctx = NilLogger"
  shows "FromContext ctx w
           = Inr (ZapLogger (length (heap w)),
                  w\<lparr>heap := heap w @ [fallback_logger], globalL := Some (length (heap w))\<rparr>)
       \<and> load (ZapLogger (length (heap w))) w = None
       \<and> load (ZapLogger (length (heap w)))
            (w\<lparr>heap := heap w @ [fallback_logger], globalL := Some (length (heap w))\<rparr>)
           = Some fallback_logger
       \<and> Info (ZapLogger (length (heap w))) msg values
            (w\<lparr>heap := heap w @ [fallback_logger], globalL := Some (length (heap w))\<rparr>)
           = Inr (emit ZInfoLevel fallback_logger msg (flatten values)
                    (w\<lparr>heap := heap w @ [fallback_logger], globalL := Some (length (heap w))\<rparr>))
       \<and> FromContext ctx
            (w\<lparr>heap := heap w @ [fallback_logger], globalL := Some (length (heap w))\<rparr>)
           = Inr (ZapLogger (Suc (length (heap w))),
                  w\<lparr>heap := heap w @ [fallback_logger, fallback_logger],
                    globalL := Some (Suc (length (heap w)))\<rparr>)"
  using assms
  by (simp add: FromContext_def NewZapLogger_SetFormat load_def fallback_logger_def Info_def logw_def)

lemma sweetenFields_concat:
  "sweetenFields (concat (map (\<lambda>key. [IString key, f key]) ks) @ rest)
     = map (\<lambda>key. (key, f key)) ks @ sweetenFields rest"
  by (induction ks) auto

lemma sweetenFields_toVariadic:
  "sweetenFields (toVariadic v) = map (\<lambda>key. (key, index v key)) (sort (map fst v))"
  using sweetenFields_concat [of "index v" "sort (map fst v)" "[]"]
  by (simp add: toVariadic_concat)

lemma set_sweetenFields_toVariadic:
  assumes "wf_gomap v"
  shows "set (sweetenFields (toVariadic v)) = set v"
proof -
  have d: "distinct (map fst v)" using assms by (simp add: wf_gomap_def)
  show ?thesis
  proof (rule set_eqI)
    fix p :: "string \<times> iface"
    obtain k x where p: "p = (k, x)" by (cases p)
    have "(k, x) \<in> set v \<longleftrightarrow> map_of v k = Some x" using d by simp
    moreover have "map_of v k = Some x \<longleftrightarrow> (k \<in> fst ` set v \<and> index v k = x)"
    proof (cases "map_of v k")
      case None
      then have "k \<notin> fst ` set v" by (simp add: map_of_eq_None_iff)
      with None show ?thesis by simp
    next
      case (Some y)
      then have "k \<in> fst ` set v" by (rule map_of_SomeD [THEN image_eqI [where f = fst, rotated]]) simp
      with Some show ?thesis by (simp add: index_def)
    qed
    ultimately show "p \<in> set (sweetenFields (toVariadic v)) \<longleftrightarrow> p \<in> set v"
      by (auto simp: p sweetenFields_toVariadic)
  qed
qed

lemma load_alloc_old:
  "load z w = Some lg \<Longrightarrow> load z (snd (alloc lg' w)) = Some lg"
  by (cases z) (auto simp: load_def alloc_def nth_append split: if_splits)

lemma load_alloc_new:
  "load (ZapLogger (fst (alloc lg w))) (snd (alloc lg w)) = Some lg"
  by (simp add: load_def alloc_def)

lemma load_fresh: "load (ZapLogger (length (heap w))) w = None"
  by (simp add: load_def)

lemma WithValues_live:
  "load z w = Some lg \<Longrightarrow>
     WithValues z values w
       = Inr (ZapLogger (length (heap w)), snd (alloc (With lg (toVariadic values)) w))"
  by (simp add: WithValues_def alloc_def)

lemma load_emit: "load z (emit lvl lg msg kv w) = load z w"
  by (cases z) (simp_all add: load_def emit_def)

lemma heap_emit: "heap (emit lvl lg msg kv w) = heap w" "globalL (emit lvl lg msg kv w) = globalL w"
  by (simp_all add: emit_def)

lemma Info_live: "load z w = Some lg \<Longrightarrow> Info z msg values w = Inr (emit ZInfoLevel lg msg (flatten values) w)"
  by (simp add: Info_def logw_def)

text \<open>
  C5. For a live parent logger and two field sets, \<open>WithValues\<close> returns a logger at a new
  address whose fixed fields are those of the parent together with the supplied ones;
  the parent is what it was; a second child is independent of the first: logging through
  the first child changes no logger, and an entry then written through the second child
  carries the parent's fields, the second field set and the call's own fields only.
\<close>

theorem WithValues_children_independent:
  assumes "load P w = Some p" and "wf_gomap F1" and "wf_gomap F2"
  shows "WithValues P F1 w
           = Inr (ZapLogger (length (heap w)), snd (alloc (With p (toVariadic F1)) w))
       \<and> load (ZapLogger (length (heap w))) (snd (alloc (With p (toVariadic F1)) w))
           = Some (With p (toVariadic F1))
       \<and> set (core_fields (With p (toVariadic F1))) = set (core_fields p) \<union> set F1
       \<and> core_config (With p (toVariadic F1)) = core_config p
       \<and> P \<noteq> ZapLogger (length (heap w))
       \<and> load P (snd (alloc (With p (toVariadic F1)) w)) = Some p
       \<and> WithValues P F2 (snd (alloc (With p (toVariadic F1)) w))
           = Inr (ZapLogger (Suc (length (heap w))),
                  snd (alloc (With p (toVariadic F2)) (snd (alloc (With p (toVariadic F1)) w))))
       \<and> set (core_fields (With p (toVariadic F2))) = set (core_fields p) \<union> set F2
       \<and> Info (ZapLogger (length (heap w))) msg1 values1
            (snd (alloc (With p (toVariadic F2)) (snd (alloc (With p (toVariadic F1)) w))))
           = Inr (emit ZInfoLevel (With p (toVariadic F1)) msg1 (flatten values1)
                    (snd (alloc (With p (toVariadic F2)) (snd (alloc (With p (toVariadic F1)) w)))))
       \<and> Info (ZapLogger (Suc (length (heap w)))) msg2 values2
            (emit ZInfoLevel (With p (toVariadic F1)) msg1 (flatten values1)
               (snd (alloc (With p (toVariadic F2)) (snd (alloc (With p (toVariadic F1)) w)))))
           = Inr (emit ZInfoLevel (With p (toVariadic F2)) msg2 (flatten values2)
                    (emit ZInfoLevel (With p (toVariadic F1)) msg1 (flatten values1)
                       (snd (alloc (With p (toVariadic F2)) (snd (alloc (With p (toVariadic F1)) w))))))
       \<and> load P (emit ZInfoLevel (With p (toVariadic F1)) msg1 (flatten values1)
                    (snd (alloc (With p (toVariadic F2)) (snd (alloc (With p (toVariadic F1)) w)))))
           = Some p
       \<and> written (emit ZInfoLevel (With p (toVariadic F2)) msg2 (flatten values2) w')
           = written w' @
             (if zlevel_num (ZLevel (core_config p)) \<le> zlevel_num ZInfoLevel
              then [\<lparr>en_config = core_config p, en_level = ZInfoLevel, en_msg = msg2,
                     en_fields = core_fields p @ sweetenFields (toVariadic F2)
                                 @ sweetenFields (flatten values2)\<rparr>]
              else [])"
proof -
  let ?c1 = "With p (toVariadic F1)" and ?c2 = "With p (toVariadic F2)"
  let ?w1 = "snd (alloc ?c1 w)"
  let ?w2 = "snd (alloc ?c2 ?w1)"
  have len1: "length (heap ?w1) = Suc (length (heap w))" by (simp add: alloc_def)
  have a: "WithValues P F1 w = Inr (ZapLogger (length (heap w)), ?w1)"
    using assms(1) by (rule WithValues_live)
  have b: "load (ZapLogger (length (heap w))) ?w1 = Some ?c1"
    using load_alloc_new [of ?c1 w] by (simp add: alloc_def)
  have c: "set (core_fields ?c1) = set (core_fields p) \<union> set F1"
    by (simp add: With_def set_sweetenFields_toVariadic [OF assms(2)])
  have c': "set (core_fields ?c2) = set (core_fields p) \<union> set F2"
    by (simp add: With_def set_sweetenFields_toVariadic [OF assms(3)])
  have d: "P \<noteq> ZapLogger (length (heap w))"
    using assms(1) by (auto simp: load_fresh)
  have e: "load P ?w1 = Some p" using assms(1) by (rule load_alloc_old)
  have f: "WithValues P F2 ?w1 = Inr (ZapLogger (Suc (length (heap w))), ?w2)"
    using WithValues_live [OF e, of F2] by (simp add: len1)
  have g: "load (ZapLogger (length (heap w))) ?w2 = Some ?c1"
    using b by (rule load_alloc_old)
  have h: "load (ZapLogger (Suc (length (heap w)))) ?w2 = Some ?c2"
    using load_alloc_new [of ?c2 ?w1] by (simp add: alloc_def)
  have i: "load P ?w2 = Some p" using e by (rule load_alloc_old)
  have j: "Info (ZapLogger (length (heap w))) msg1 values1 ?w2
             = Inr (emit ZInfoLevel ?c1 msg1 (flatten values1) ?w2)"
    using g by (rule Info_live)
  have k: "Info (ZapLogger (Suc (length (heap w)))) msg2 values2
             (emit ZInfoLevel ?c1 msg1 (flatten values1) ?w2)
             = Inr (emit ZInfoLevel ?c2 msg2 (flatten values2) (emit ZInfoLevel ?c1 msg1 (flatten values1) ?w2))"
    by (rule Info_live) (simp add: load_emit h)
  have l: "load P (emit ZInfoLevel ?c1 msg1 (flatten values1) ?w2) = Some p"
    by (simp add: load_emit i)
  have m: "core_config ?c1 = core_config p" by (simp add: With_def)
  have n: "written (emit ZInfoLevel ?c2 msg2 (flatten values2) w')
           = written w' @
             (if zlevel_num (ZLevel (core_config p)) \<le> zlevel_num ZInfoLevel
              then [\<lparr>en_config = core_config p, en_level = ZInfoLevel, en_msg = msg2,
                     en_fields = core_fields p @ sweetenFields (toVariadic F2)
                                 @ sweetenFields (flatten values2)\<rparr>]
              else [])"
    by (simp add: emit_def With_def)
  from a b c c' d e f j k l m n show ?thesis by blast
qed

lemma load_app_world: "load (ZapLogger 0) app_world = Some console_logger"
  by (simp add: load_def app_world_eq console_logger_def)

lemma wf_examples: "wf_gomap tracking_fields" "wf_gomap user_fields"
  by (simp_all add: wf_gomap_def tracking_fields_def user_fields_def)

theorem WithValues_children_independent_witness:
  "load (ZapLogger 0) app_world = Some console_logger
   \<and> wf_gomap tracking_fields \<and> wf_gomap user_fields
   \<and> WithValues (ZapLogger 0) tracking_fields app_world
       = Inr (ZapLogger (length (heap app_world)),
              snd (alloc (With console_logger (toVariadic tracking_fields)) app_world))
   \<and> set (core_fields (With console_logger (toVariadic user_fields)))
       = set (core_fields console_logger) \<union> set user_fields"
  using WithValues_children_independent [OF load_app_world wf_examples] load_app_world wf_examples
  by blast

text \<open>
  C8. For a live logger: with a non-empty field set \<open>WithContext\<close> derives a child through
  \<open>WithValues\<close> and stores the child, with an empty one it stores the logger it was given;
  the result is a new value context over the original scope, which is its parent and
  still answers every other key; \<open>FromContext\<close> on the result returns the stored logger
  and builds nothing.
\<close>

theorem WithContext_binds_logger:
  assumes "load lg w = Some l0"
  shows "(values \<noteq> [] \<longrightarrow>
            WithValues lg values w
              = Inr (ZapLogger (length (heap w)), snd (alloc (With l0 (toVariadic values)) w))
          \<and> WithContext ctx lg values w
              = Inr (valueCtx ctx contextKey (logger_value (ZapLogger (length (heap w)))),
                     snd (alloc (With l0 (toVariadic values)) w))
          \<and> FromContext (valueCtx ctx contextKey (logger_value (ZapLogger (length (heap w)))))
                (snd (alloc (With l0 (toVariadic values)) w))
              = Inr (ZapLogger (length (heap w)), snd (alloc (With l0 (toVariadic values)) w)))
       \<and> (values = [] \<longrightarrow>
            WithContext ctx lg values w = Inr (valueCtx ctx contextKey (logger_value lg), w)
          \<and> FromContext (valueCtx ctx contextKey (logger_value lg)) w = Inr (lg, w))
       \<and> (\<forall>child k. k \<noteq> contextKey \<longrightarrow>
              Value (valueCtx ctx contextKey (logger_value child)) k = Value ctx k)"
proof -
  have nn: "lg \<noteq> NilLogger" using assms by (auto simp: load_def)
  have wv: "WithValues lg values w
              = Inr (ZapLogger (length (heap w)), snd (alloc (With l0 (toVariadic values)) w))"
    using assms by (rule WithValues_live)
  have a: "values \<noteq> [] \<Longrightarrow> WithContext ctx lg values w
              = Inr (valueCtx ctx contextKey (logger_value (ZapLogger (length (heap w)))),
                     snd (alloc (With l0 (toVariadic values)) w))"
    by (simp add: WithContext_def wv WithValue_def)
  have b: "FromContext (valueCtx ctx contextKey (logger_value z)) w' = Inr (z, w')"
    if "z \<noteq> NilLogger" for z w'
    using that by (simp add: FromContext_def lookup_logger_def)
  have c: "values = [] \<Longrightarrow> WithContext ctx lg values w = Inr (valueCtx ctx contextKey (logger_value lg), w)"
    by (simp add: WithContext_def WithValue_def)
  show ?thesis using wv a b [OF nn] b [of "ZapLogger (length (heap w))"] c by simp
qed

theorem WithContext_binds_logger_witness:
  "load (ZapLogger 0) app_world = Some console_logger
   \<and> tracking_fields \<noteq> []
   \<and> WithContext Background (ZapLogger 0) tracking_fields app_world
       = Inr (valueCtx Background contextKey (logger_value (ZapLogger (length (heap app_world)))),
              snd (alloc (With console_logger (toVariadic tracking_fields)) app_world))
   \<and> WithContext Background (ZapLogger 0) [] app_world
       = Inr (valueCtx Background contextKey (logger_value (ZapLogger 0)), app_world)
   \<and> FromContext (valueCtx Background contextKey (logger_value (ZapLogger 0))) app_world
       = Inr (ZapLogger 0, app_world)
   \<and> Value (valueCtx Background contextKey (logger_value (ZapLogger 0))) (foreign_key ''request-id'')
       = Value Background (foreign_key ''request-id'')"
proof -
  have ne: "tracking_fields \<noteq> []" by (simp add: tracking_fields_def)
  have k: "foreign_key ''request-id'' \<noteq> contextKey" by simp
  show ?thesis
    using WithContext_binds_logger [OF load_app_world, of tracking_fields Background]
      WithContext_binds_logger [OF load_app_world, of "[]" Background]
      load_app_world ne k
    by simp
qed

theorem FromContext_unbound_builds_and_installs_witness:
  "lookup_logger Background = NilLogger
   \<and> FromContext Background app_world
       = Inr (ZapLogger (length (heap app_world)),
              app_world\<lparr>heap := heap app_world @ [fallback_logger],
                         globalL := Some (length (heap app_world))\<rparr>)
   \<and> load (ZapLogger (length (heap app_world))) app_world = None"
proof -
  have u: "lookup_logger Background = NilLogger" by (simp add: lookup_logger_def)
  show ?thesis using u FromContext_unbound_builds_and_installs [OF u, of app_world] by simp
qed

end
